theory Spec2Isabelle
  imports Main "HOL-Library.Word"
begin

unbundle bit_operations_syntax

section \<open>Outcomes of kernel routines\<close>

text \<open>
  A routine of the kernel either returns, or stops the whole simulator
  (\<^verbatim>\<open>exit(ERROR)\<close>, \<^verbatim>\<open>g_machine->interrupt->Halt(ERROR)\<close>, a failed \<^verbatim>\<open>ASSERT\<close>), or
  leaves the behaviour defined by C++ (an array indexed outside its bounds, a
  null pointer followed, a division by zero).
\<close>

datatype 'a outcome = Returns 'a | Halts | Undefined

text \<open>The exception codes switched on by \<^verbatim>\<open>ExceptionHandler\<close> (exception.cc).\<close>

datatype ExceptionType =
    NO_EXCEPTION
  | SYSCALL_EXCEPTION
  | PAGEFAULT_EXCEPTION
  | READONLY_EXCEPTION
  | BUSERROR_EXCEPTION
  | ADDRESSERROR_EXCEPTION
  | OVERFLOW_EXCEPTION
  | ILLEGALINSTR_EXCEPTION

text \<open>
  Modelled from the spec: the class \<^verbatim>\<open>Config\<close> behind \<^verbatim>\<open>g_cfg\<close> is declared outside the
  sources at hand. Only its two fields read by the memory subsystem are kept.
\<close>

record Config =
  PageSize :: nat
  NumPhysPages :: nat

text \<open>Conversion of a non-negative quantity to a C \<^verbatim>\<open>int\<close> (32 bits, two's complement).\<close>

definition to_int :: "nat \<Rightarrow> int" where
  "to_int n =
     (if n mod 2 ^ 32 < 2 ^ 31 then int (n mod 2 ^ 32) else int (n mod 2 ^ 32) - 2 ^ 32)"

section \<open>Translation table\<close>

text \<open>
  Modelled from the spec: the class \<^verbatim>\<open>TranslationTable\<close> is used by mmu.cc and physMem.cc
  but declared outside the sources at hand. Section 3 of the specification gives one
  entry per virtual page with the fields below, in an ordered sequence of fixed capacity
  indexed by virtual page number; the accessors are those called by the sources.
  \<^verbatim>\<open>getPhysicalPage\<close> is compared with 0 in \<^verbatim>\<open>MMU::Translate\<close>, so the frame number is
  signed.
\<close>

record PageTableEntry =
  physicalPage :: int
  valid :: bool
  readAllowed :: bool
  writeAllowed :: bool
  used :: bool
  modified :: bool
  addrDisk :: int

type_synonym TranslationTable = "PageTableEntry list"

definition getMaxNumPages :: "TranslationTable \<Rightarrow> nat" where
  "getMaxNumPages tt = length tt"

definition getBitReadAllowed :: "TranslationTable \<Rightarrow> nat \<Rightarrow> bool" where
  "getBitReadAllowed tt vpn = readAllowed (tt ! vpn)"

definition getBitWriteAllowed :: "TranslationTable \<Rightarrow> nat \<Rightarrow> bool" where
  "getBitWriteAllowed tt vpn = writeAllowed (tt ! vpn)"

definition getBitValid :: "TranslationTable \<Rightarrow> nat \<Rightarrow> bool" where
  "getBitValid tt vpn = valid (tt ! vpn)"

definition getBitU :: "TranslationTable \<Rightarrow> nat \<Rightarrow> bool" where
  "getBitU tt vpn = used (tt ! vpn)"

definition getBitM :: "TranslationTable \<Rightarrow> nat \<Rightarrow> bool" where
  "getBitM tt vpn = modified (tt ! vpn)"

definition getPhysicalPage :: "TranslationTable \<Rightarrow> nat \<Rightarrow> int" where
  "getPhysicalPage tt vpn = physicalPage (tt ! vpn)"

definition setBitU :: "TranslationTable \<Rightarrow> nat \<Rightarrow> TranslationTable" where
  "setBitU tt vpn = tt[vpn := (tt ! vpn)\<lparr>used := True\<rparr>]"

definition setBitM :: "TranslationTable \<Rightarrow> nat \<Rightarrow> TranslationTable" where
  "setBitM tt vpn = tt[vpn := (tt ! vpn)\<lparr>modified := True\<rparr>]"


section \<open>The MMU\<close>

text \<open>
  The two counters of \<^verbatim>\<open>ProcessStat\<close> (stats.h) that the memory subsystem updates, both
  \<^verbatim>\<open>uint64_t\<close>. Modelled from the spec: the body of \<^verbatim>\<open>ProcessStat::incrMemoryAccess\<close> is
  outside the sources at hand; section 4.1 says it increments the per-process
  memory-access counter.
\<close>

record ProcessStat =
  numMemoryAccess :: "64 word"
  numPageFaults :: "64 word"

definition incrPageFault :: "ProcessStat \<Rightarrow> ProcessStat" where
  "incrPageFault st = st\<lparr>numPageFaults := numPageFaults st + 1\<rparr>"

definition incrMemoryAccess :: "ProcessStat \<Rightarrow> ProcessStat" where
  "incrMemoryAccess st = st\<lparr>numMemoryAccess := numMemoryAccess st + 1\<rparr>"

text \<open>
  What \<^verbatim>\<open>MMU::Translate\<close> reads and writes: the translation table its
  \<^verbatim>\<open>translationTable\<close> pointer designates, and the statistics of the running process
  (\<^verbatim>\<open>g_current_thread->GetProcessOwner()->stat\<close>).
\<close>

record mmu_state =
  translationTable :: TranslationTable
  stat :: ProcessStat

text \<open>
  Modelled from the spec: \<^verbatim>\<open>PageFaultManager::PageFault\<close> is outside the sources at hand
  (section 4.4: interface only). It is a parameter of the translator: given the virtual
  page number it returns an exception code and a new state, or never returns.
\<close>

type_synonym PageFaultManager = "nat \<Rightarrow> mmu_state \<Rightarrow> (ExceptionType \<times> mmu_state) outcome"

text \<open>
  The page number that the \<^verbatim>\<open>PAGEFAULT_EXCEPTION\<close> case of
  \<^verbatim>\<open>ExceptionHandler(ExceptionType exceptiontype, int vaddr)\<close> hands to the page fault
  service: \<^verbatim>\<open>vaddr / g_cfg->PageSize\<close>. Modelled from the spec: the declaration of
  \<^verbatim>\<open>PageSize\<close> is outside the sources at hand; its sibling \<^verbatim>\<open>NumPhysPages\<close> is a
  \<^verbatim>\<open>uint64_t\<close> (physMem.cc prints it with \<^verbatim>\<open>PRIu64\<close>) and \<^verbatim>\<open>PageSize\<close> is taken to be one
  too. The \<^verbatim>\<open>int\<close> is then converted to \<^verbatim>\<open>uint64_t\<close> before the division, so that a
  negative \<^verbatim>\<open>vaddr\<close> counts as \<open>2 ^ 64 + vaddr\<close>.
\<close>

definition PageFault_page :: "Config \<Rightarrow> int \<Rightarrow> nat" where
  "PageFault_page cfg vaddr = nat (vaddr mod 2 ^ 64) div PageSize cfg"

text \<open>
  The \<^verbatim>\<open>PAGEFAULT_EXCEPTION\<close> case of \<^verbatim>\<open>ExceptionHandler\<close>: call the page fault
  service on that page number and halt the machine when it reports an exception. The
  division is by \<^verbatim>\<open>g_cfg->PageSize\<close>, outside what C++ defines when that is 0.
\<close>

definition ExceptionHandler_PAGEFAULT ::
  "PageFaultManager \<Rightarrow> Config \<Rightarrow> int \<Rightarrow> mmu_state \<Rightarrow> mmu_state outcome" where
  "ExceptionHandler_PAGEFAULT pfm cfg vaddr s =
     (if PageSize cfg = 0 then Undefined
      else
        (case pfm (PageFault_page cfg vaddr) s of
           Returns (e, s') \<Rightarrow> if e \<noteq> NO_EXCEPTION then Halts else Returns s'
         | Halts \<Rightarrow> Halts
         | Undefined \<Rightarrow> Undefined))"

text \<open>
  Lines 245 to 259 of mmu.cc: when the entry is not valid, count the fault, raise the
  page-fault exception, and exit if the entry is still not valid afterwards.
  \<^verbatim>\<open>g_machine->RaiseException(PAGEFAULT_EXCEPTION, virtAddr)\<close> reaches the handler, whose
  address parameter is an \<^verbatim>\<open>int\<close>: the 32-bit address arrives there converted to
  \<^verbatim>\<open>int\<close>, negative from \<open>2 ^ 31\<close> on. The table is read again after the handler; a
  handler that left fewer than \<open>vpn + 1\<close> entries makes that read fall outside the
  table.
\<close>

definition residency ::
  "PageFaultManager \<Rightarrow> Config \<Rightarrow> 32 word \<Rightarrow> nat \<Rightarrow> mmu_state \<Rightarrow> mmu_state outcome" where
  "residency pfm cfg virtAddr vpn s =
     (if \<not> getBitValid (translationTable s) vpn then
        (case ExceptionHandler_PAGEFAULT pfm cfg (to_int (unat virtAddr))
                (s\<lparr>stat := incrPageFault (stat s)\<rparr>) of
           Returns s' \<Rightarrow>
             if getMaxNumPages (translationTable s') \<le> vpn then Undefined
             else if \<not> getBitValid (translationTable s') vpn then Halts
             else Returns s'
         | Halts \<Rightarrow> Halts
         | Undefined \<Rightarrow> Undefined)
      else Returns s)"

text \<open>
  \<^verbatim>\<open>MMU::Translate(virtAddr, physAddr, size, writing)\<close>. The result carries the exception
  code, the value stored through \<^verbatim>\<open>physAddr\<close> (\<open>None\<close> when nothing is stored) and the
  new state. \<^verbatim>\<open>vpn\<close> and \<^verbatim>\<open>offset\<close> are C \<^verbatim>\<open>int\<close>s; \<^verbatim>\<open>*physAddr\<close> is a \<^verbatim>\<open>uint32_t\<close>, so the
  sum stored there is reduced modulo \<open>2 ^ 32\<close>. A division by a page size of 0, and
  a negative \<^verbatim>\<open>vpn\<close> that passes the range test (it takes a page size of 1 and an address
  of \<open>2 ^ 31\<close> or more) and then indexes the table, are outside what C++ defines.
\<close>

definition Translate ::
  "PageFaultManager \<Rightarrow> Config \<Rightarrow> 32 word \<Rightarrow> int \<Rightarrow> bool \<Rightarrow> mmu_state
     \<Rightarrow> (ExceptionType \<times> 32 word option \<times> mmu_state) outcome" where
  "Translate pfm cfg virtAddr sz writing s =
     (if (sz = 4 \<and> virtAddr AND 3 \<noteq> 0) \<or> (sz = 2 \<and> virtAddr AND 1 \<noteq> 0)
      then Returns (BUSERROR_EXCEPTION, None, s)
      else if PageSize cfg = 0 then Undefined
      else
        let vpn = to_int (unat virtAddr div PageSize cfg);
            offset = to_int (unat virtAddr mod PageSize cfg)
        in
          if vpn \<ge> int (getMaxNumPages (translationTable s))
          then Returns (ADDRESSERROR_EXCEPTION, None, s)
          else if vpn < 0 then Undefined
          else if \<not> getBitReadAllowed (translationTable s) (nat vpn) \<and>
                  \<not> getBitWriteAllowed (translationTable s) (nat vpn)
          then Returns (ADDRESSERROR_EXCEPTION, None, s)
          else if writing \<and> \<not> getBitWriteAllowed (translationTable s) (nat vpn)
          then Returns (READONLY_EXCEPTION, None, s)
          else
            (case residency pfm cfg virtAddr (nat vpn) s of
               Halts \<Rightarrow> Halts
             | Undefined \<Rightarrow> Undefined
             | Returns s1 \<Rightarrow>
                 if getPhysicalPage (translationTable s1) (nat vpn) < 0 \<or>
                    getPhysicalPage (translationTable s1) (nat vpn) \<ge> to_int (NumPhysPages cfg)
                 then Returns (BUSERROR_EXCEPTION, None, s1)
                 else
                   let tt2 = (if writing then setBitM (translationTable s1) (nat vpn)
                              else translationTable s1);
                       tt3 = setBitU tt2 (nat vpn);
                       s2 = s1\<lparr>translationTable := tt3, stat := incrMemoryAccess (stat s1)\<rparr>
                   in Returns (NO_EXCEPTION,
                        Some (word_of_int
                          (getPhysicalPage tt3 (nat vpn) * int (PageSize cfg) + offset)),
                        s2)))"

text \<open>The virtual page number of an address, as \<^verbatim>\<open>Translate\<close> computes it.\<close>

definition vpn_of :: "Config \<Rightarrow> 32 word \<Rightarrow> int" where
  "vpn_of cfg virtAddr = to_int (unat virtAddr div PageSize cfg)"

text \<open>The alignment demanded of an access: low two bits clear for 4 bytes, low bit for 2.\<close>

definition aligned :: "int \<Rightarrow> 32 word \<Rightarrow> bool" where
  "aligned sz a \<longleftrightarrow> (sz = 4 \<longrightarrow> unat a mod 4 = 0) \<and> (sz = 2 \<longrightarrow> unat a mod 2 = 0)"

text \<open>The frame-bounds test of \<^verbatim>\<open>Translate\<close> (lines 262-263), passed.\<close>

definition frame_in_bounds :: "Config \<Rightarrow> mmu_state \<Rightarrow> nat \<Rightarrow> bool" where
  "frame_in_bounds cfg s vpn \<longleftrightarrow>
     0 \<le> physicalPage (translationTable s ! vpn) \<and>
     physicalPage (translationTable s ! vpn) < to_int (NumPhysPages cfg)"

text \<open>
  The entry of page \<open>vpn\<close> is valid in \<open>s\<close> (and nothing happens), or it is not, the page
  fault service is called, with the page number the handler computes from the address,
  on the state with the fault counted, and comes back without an exception with the
  entry of \<open>vpn\<close> valid; \<open>s1\<close> is the state translation goes on with.
\<close>

definition becomes_resident ::
  "PageFaultManager \<Rightarrow> Config \<Rightarrow> 32 word \<Rightarrow> nat \<Rightarrow> mmu_state \<Rightarrow> mmu_state \<Rightarrow> bool" where
  "becomes_resident pfm cfg virtAddr vpn s s1 \<longleftrightarrow>
     (valid (translationTable s ! vpn) \<and> s1 = s) \<or>
     (\<not> valid (translationTable s ! vpn) \<and>
      pfm (PageFault_page cfg (to_int (unat virtAddr))) (s\<lparr>stat := incrPageFault (stat s)\<rparr>)
        = Returns (NO_EXCEPTION, s1) \<and>
      vpn < length (translationTable s1) \<and> valid (translationTable s1 ! vpn))"

section \<open>Physical memory manager\<close>

text \<open>
  \<^verbatim>\<open>struct tpr_c\<close> of physMem.h. The \<^verbatim>\<open>owner\<close> pointer is \<open>None\<close> when \<^verbatim>\<open>NULL\<close> and
  \<open>Some i\<close> when it points to address space number \<open>i\<close>.
\<close>

record tpr_c =
  free :: bool
  locked :: bool
  virtualPage :: nat
  owner :: "nat option"

text \<open>
  The members of \<^verbatim>\<open>PhysicalMemManager\<close>, together with what its methods reach through
  pointers: the address spaces (each reduced to its \<^verbatim>\<open>translationTable\<close> pointer, the only
  member of addrspace.h that physMem.cc follows; \<open>None\<close> is \<^verbatim>\<open>NULL\<close>) and the statistics
  of the running process.
\<close>

record pmm_state =
  tpr :: "tpr_c list"
  free_page_list :: "nat list"
  i_clock :: "64 word"
  addrspaces :: "TranslationTable option list"
  pstat :: ProcessStat







text \<open>
  \<^verbatim>\<open>EvictPage\<close> prints that page replacement is not implemented and calls
  \<^verbatim>\<open>exit(ERROR)\<close>; the \<^verbatim>\<open>return (0)\<close> after it is never reached.
\<close>

definition EvictPage :: "pmm_state \<Rightarrow> (nat \<times> pmm_state) outcome" where
  "EvictPage s = Halts"

subsection \<open>The consistency of frames and translation tables\<close>

definition table_of :: "pmm_state \<Rightarrow> nat \<Rightarrow> TranslationTable option" where
  "table_of s ow = (if ow < length (addrspaces s) then addrspaces s ! ow else None)"


text \<open>Page \<open>vp\<close> of address space \<open>ow\<close> has a valid entry whose frame is \<open>f\<close>.\<close>

definition maps_to :: "pmm_state \<Rightarrow> nat \<Rightarrow> nat \<Rightarrow> nat \<Rightarrow> bool" where
  "maps_to s ow vp f \<longleftrightarrow>
     (case table_of s ow of
        None \<Rightarrow> False
      | Some tt \<Rightarrow> vp < length tt \<and> valid (tt ! vp) \<and> physicalPage (tt ! vp) = int f)"





section \<open>Swap manager\<close>

text \<open>
  Modelled from the spec: the constants \<^verbatim>\<open>INVALID_SECTOR\<close> and \<^verbatim>\<open>ERROR\<close> are defined
  outside the sources at hand. The header of \<^verbatim>\<open>PutPageSwap\<close> in swapManager.h names the
  sentinel as \<open>- 1\<close>; section 4.3 has a single signal for a full swap area, so \<^verbatim>\<open>ERROR\<close>,
  which \<^verbatim>\<open>GetFreeSwapSector\<close> returns and \<^verbatim>\<open>PutPageSwap\<close> tests as
  \<^verbatim>\<open>INVALID_SECTOR\<close>, is the same value.
\<close>

definition INVALID_SECTOR :: int where
  "INVALID_SECTOR = - 1"

definition ERROR :: int where
  "ERROR = - 1"

text \<open>
  Modelled from the spec: the classes \<^verbatim>\<open>BitMap\<close> and \<^verbatim>\<open>DriverDisk\<close> and the array
  \<^verbatim>\<open>g_machine->mainMemory\<close> are declared outside the sources at hand. The bitmap has one
  bit per sector of the swap area, true when occupied (section 3); the disk is an array
  of page slots indexed by sector number and transfers are page-sized (section 6), so a
  sector is read here as a function from byte offsets below the page size to bytes.
\<close>

definition Test :: "bool list \<Rightarrow> nat \<Rightarrow> bool" where
  "Test bm i = bm ! i"

definition Mark :: "bool list \<Rightarrow> nat \<Rightarrow> bool list" where
  "Mark bm i = bm[i := True]"

definition Clear :: "bool list \<Rightarrow> nat \<Rightarrow> bool list" where
  "Clear bm i = bm[i := False]"

record swap_state =
  page_flags :: "bool list"
  swap_disk :: "nat \<Rightarrow> nat \<Rightarrow> 8 word"
  mainMemory :: "8 word list"

text \<open>
  \<^verbatim>\<open>WriteSector(sector, buffer)\<close> and \<^verbatim>\<open>ReadSector(sector, buffer)\<close> with the buffer at
  index \<open>base\<close> of main memory. A buffer that does not lie inside main memory is an
  access outside the array.
\<close>

definition WriteSector :: "Config \<Rightarrow> nat \<Rightarrow> nat \<Rightarrow> swap_state \<Rightarrow> swap_state outcome" where
  "WriteSector cfg sector base s =
     (if length (mainMemory s) < base + PageSize cfg then Undefined
      else Returns
        (s\<lparr>swap_disk := (swap_disk s)
              (sector := \<lambda>j. if j < PageSize cfg then mainMemory s ! (base + j)
                              else swap_disk s sector j)\<rparr>))"

definition ReadSector :: "Config \<Rightarrow> nat \<Rightarrow> nat \<Rightarrow> swap_state \<Rightarrow> swap_state outcome" where
  "ReadSector cfg sector base s =
     (if length (mainMemory s) < base + PageSize cfg then Undefined
      else Returns
        (s\<lparr>mainMemory :=
              take base (mainMemory s) @ map (swap_disk s sector) [0..<PageSize cfg] @
              drop (base + PageSize cfg) (mainMemory s)\<rparr>))"

text \<open>
  The constructor: a bitmap of \<^verbatim>\<open>NUM_SECTORS\<close> clear bits. \<^verbatim>\<open>NUM_SECTORS\<close> is defined
  outside the sources at hand and is a parameter here.
\<close>

definition SwapManager ::
  "nat \<Rightarrow> (nat \<Rightarrow> nat \<Rightarrow> 8 word) \<Rightarrow> 8 word list \<Rightarrow> swap_state" where
  "SwapManager NUM_SECTORS disk mem =
     \<lparr>page_flags = replicate NUM_SECTORS False, swap_disk = disk, mainMemory = mem\<rparr>"

text \<open>
  The loop of \<^verbatim>\<open>GetFreeSwapSector\<close>, from index \<open>i\<close> on. The result is a \<^verbatim>\<open>uint64_t\<close>:
  the index found, or \<^verbatim>\<open>ERROR\<close> converted.
\<close>

function GetFreeSwapSector_from ::
  "nat \<Rightarrow> nat \<Rightarrow> swap_state \<Rightarrow> (64 word \<times> swap_state) outcome" where
  "GetFreeSwapSector_from NUM_SECTORS i s =
     (if i < NUM_SECTORS then
        (if length (page_flags s) \<le> i then Undefined
         else if \<not> Test (page_flags s) i
         then Returns (word_of_nat i, s\<lparr>page_flags := Mark (page_flags s) i\<rparr>)
         else GetFreeSwapSector_from NUM_SECTORS (i + 1) s)
      else Returns (word_of_int ERROR, s))"
  by pat_completeness auto
termination
  by (relation "measure (\<lambda>(n, i, s). n - i)") auto

definition GetFreeSwapSector :: "nat \<Rightarrow> swap_state \<Rightarrow> (64 word \<times> swap_state) outcome" where
  "GetFreeSwapSector NUM_SECTORS s = GetFreeSwapSector_from NUM_SECTORS 0 s"

definition ReleasePageSwap :: "32 word \<Rightarrow> swap_state \<Rightarrow> swap_state outcome" where
  "ReleasePageSwap disk_addr s =
     (if length (page_flags s) \<le> unat disk_addr then Undefined
      else Returns (s\<lparr>page_flags := Clear (page_flags s) (unat disk_addr)\<rparr>))"

definition GetPageSwap :: "Config \<Rightarrow> 32 word \<Rightarrow> nat \<Rightarrow> swap_state \<Rightarrow> swap_state outcome" where
  "GetPageSwap cfg disk_addr pp s = ReadSector cfg (unat disk_addr) (pp * PageSize cfg) s"

definition PutPageSwap ::
  "Config \<Rightarrow> nat \<Rightarrow> 32 word \<Rightarrow> nat \<Rightarrow> swap_state \<Rightarrow> (64 word \<times> swap_state) outcome" where
  "PutPageSwap cfg NUM_SECTORS disk_addr pp s =
     (if disk_addr \<noteq> word_of_int INVALID_SECTOR then
        (case WriteSector cfg (unat disk_addr) (pp * PageSize cfg) s of
           Returns s1 \<Rightarrow> Returns (ucast disk_addr, s1)
         | Halts \<Rightarrow> Halts
         | Undefined \<Rightarrow> Undefined)
      else
        (case GetFreeSwapSector NUM_SECTORS s of
           Returns (newsect, s1) \<Rightarrow>
             if newsect = word_of_int INVALID_SECTOR
             then Returns (word_of_int INVALID_SECTOR, s1)
             else
               (case WriteSector cfg (unat newsect) (pp * PageSize cfg) s1 of
                  Returns s2 \<Rightarrow> Returns (newsect, s2)
                | Halts \<Rightarrow> Halts
                | Undefined \<Rightarrow> Undefined)
         | Halts \<Rightarrow> Halts
         | Undefined \<Rightarrow> Undefined))"

text \<open>The content of frame \<open>pp\<close>: the page-sized block of main memory it occupies.\<close>

definition frame_content :: "Config \<Rightarrow> swap_state \<Rightarrow> nat \<Rightarrow> 8 word list" where
  "frame_content cfg s pp = take (PageSize cfg) (drop (pp * PageSize cfg) (mainMemory s))"

definition frame_in_memory :: "Config \<Rightarrow> swap_state \<Rightarrow> nat \<Rightarrow> bool" where
  "frame_in_memory cfg s pp \<longleftrightarrow> pp * PageSize cfg + PageSize cfg \<le> length (mainMemory s)"

text \<open>The lowest-indexed clear bit of a bitmap is at \<open>i\<close>.\<close>

definition first_clear :: "bool list \<Rightarrow> nat \<Rightarrow> bool" where
  "first_clear bm i \<longleftrightarrow> i < length bm \<and> \<not> bm ! i \<and> (\<forall>j < i. bm ! j)"


section \<open>Concrete machines\<close>

text \<open>
  A machine with pages of 128 bytes and 4 frames, and a translation table of five
  pages: page 0 resident and writable, page 1 resident and read-only, page 2 unmapped,
  page 3 mapped and writable but not resident, page 4 resident with a frame number
  outside physical memory.
\<close>

definition cfg0 :: Config where
  "cfg0 = \<lparr>PageSize = 128, NumPhysPages = 4\<rparr>"

definition tt0 :: TranslationTable where
  "tt0 =
    [\<lparr>physicalPage = 2, valid = True, readAllowed = True, writeAllowed = True,
      used = False, modified = False, addrDisk = - 1\<rparr>,
     \<lparr>physicalPage = 1, valid = True, readAllowed = True, writeAllowed = False,
      used = False, modified = False, addrDisk = - 1\<rparr>,
     \<lparr>physicalPage = 0, valid = False, readAllowed = False, writeAllowed = False,
      used = False, modified = False, addrDisk = - 1\<rparr>,
     \<lparr>physicalPage = 0, valid = False, readAllowed = True, writeAllowed = True,
      used = False, modified = False, addrDisk = - 1\<rparr>,
     \<lparr>physicalPage = 9, valid = True, readAllowed = True, writeAllowed = True,
      used = False, modified = False, addrDisk = - 1\<rparr>]"

definition s0 :: mmu_state where
  "s0 = \<lparr>translationTable = tt0, stat = \<lparr>numMemoryAccess = 0, numPageFaults = 0\<rparr>\<rparr>"

text \<open>A page fault service that loads the page into frame 3, and one that does nothing.\<close>

definition pfm_load :: PageFaultManager where
  "pfm_load vpn s =
     Returns (NO_EXCEPTION,
       s\<lparr>translationTable :=
           (translationTable s)[vpn :=
              (translationTable s ! vpn)\<lparr>physicalPage := 3, valid := True\<rparr>]\<rparr>)"

definition pfm_idle :: PageFaultManager where
  "pfm_idle vpn s = Returns (NO_EXCEPTION, s)"

definition s0_loaded :: mmu_state where
  "s0_loaded =
     \<lparr>translationTable = tt0[3 := (tt0 ! 3)\<lparr>physicalPage := 3, valid := True\<rparr>],
      stat = \<lparr>numMemoryAccess = 0, numPageFaults = 1\<rparr>\<rparr>"

text \<open>
  A machine with pages of \<open>2 ^ 31\<close> bytes and 4 frames, and a translation table of two
  pages: page 0 resident in frame 3, page 1 mapped but not resident. \<open>s_big_read\<close> is
  \<open>s_big\<close> after one successful read of page 0. \<open>pfm_in_table\<close> is a page fault service
  that loads the page it is asked for into frame 2 when the table has that page, and
  otherwise comes back having done nothing.
\<close>

definition cfg_big :: Config where
  "cfg_big = \<lparr>PageSize = 2147483648, NumPhysPages = 4\<rparr>"

definition tt_big :: TranslationTable where
  "tt_big =
    [\<lparr>physicalPage = 3, valid = True, readAllowed = True, writeAllowed = True,
      used = False, modified = False, addrDisk = - 1\<rparr>,
     \<lparr>physicalPage = 0, valid = False, readAllowed = True, writeAllowed = True,
      used = False, modified = False, addrDisk = - 1\<rparr>]"

definition s_big :: mmu_state where
  "s_big = \<lparr>translationTable = tt_big, stat = \<lparr>numMemoryAccess = 0, numPageFaults = 0\<rparr>\<rparr>"

definition s_big_read :: mmu_state where
  "s_big_read =
     \<lparr>translationTable = tt_big[0 := (tt_big ! 0)\<lparr>used := True\<rparr>],
      stat = \<lparr>numMemoryAccess = 1, numPageFaults = 0\<rparr>\<rparr>"

definition pfm_in_table :: PageFaultManager where
  "pfm_in_table vpn s =
     (if vpn < length (translationTable s)
      then Returns (NO_EXCEPTION,
        s\<lparr>translationTable :=
            (translationTable s)[vpn :=
               (translationTable s ! vpn)\<lparr>physicalPage := 2, valid := True\<rparr>]\<rparr>)
      else Returns (NO_EXCEPTION, s))"





definition pmm_full :: pmm_state where
  "pmm_full =
     \<lparr>tpr = [\<lparr>free = False, locked = True, virtualPage = 1, owner = Some 0\<rparr>,
             \<lparr>free = False, locked = False, virtualPage = 0, owner = Some 0\<rparr>],
      free_page_list = [],
      i_clock = - 1,
      addrspaces =
        [Some [\<lparr>physicalPage = 1, valid = True, readAllowed = True, writeAllowed = True,
                used = False, modified = False, addrDisk = - 1\<rparr>,
               \<lparr>physicalPage = 0, valid = True, readAllowed = True, writeAllowed = True,
                used = True, modified = False, addrDisk = - 1\<rparr>]],
      pstat = \<lparr>numMemoryAccess = 0, numPageFaults = 0\<rparr>\<rparr>"

text \<open>
  A swap manager over three sectors, pages of 4 bytes and a main memory of two frames;
  sector 1 is the only free one in \<open>sw0\<close>, none is in \<open>sw_full\<close>.
\<close>

definition cfg_toy :: Config where
  "cfg_toy = \<lparr>PageSize = 4, NumPhysPages = 2\<rparr>"

definition sw0 :: swap_state where
  "sw0 = \<lparr>page_flags = [True, False, True], swap_disk = (\<lambda>sector j. 0),
          mainMemory = [1, 2, 3, 4, 5, 6, 7, 8]\<rparr>"

definition sw_full :: swap_state where
  "sw_full = \<lparr>page_flags = [True, True, True], swap_disk = (\<lambda>sector j. 0),
          mainMemory = [1, 2, 3, 4, 5, 6, 7, 8]\<rparr>"

section \<open>Properties of the translator\<close>

lemma and_3_mod: "((a :: 32 word) AND 3 \<noteq> 0) = (unat a mod 4 \<noteq> 0)"
proof -
  have "a AND 3 = take_bit 2 a"
    using take_bit_eq_mask [of 2 a] by (simp add: mask_eq_exp_minus_1)
  then have "unat (a AND 3) = unat a mod 4"
    by (simp add: unsigned_take_bit_eq take_bit_eq_mod unat_mod)
  then show ?thesis
    by (metis unat_eq_0 unsigned_0)
qed

lemma and_1_mod: "((a :: 32 word) AND 1 \<noteq> 0) = (unat a mod 2 \<noteq> 0)"
proof -
  have "a AND 1 = take_bit 1 a"
    using take_bit_eq_mask [of 1 a] by (simp add: mask_eq_exp_minus_1)
  then have "unat (a AND 1) = unat a mod 2"
    by (simp add: unsigned_take_bit_eq take_bit_eq_mod unat_mod)
  then show ?thesis
    by (metis unat_eq_0 unsigned_0)
qed

lemma to_int_small: "n < 2 ^ 31 \<Longrightarrow> to_int n = int n"
  by (simp add: to_int_def)

lemma to_int_le: "0 \<le> to_int n \<Longrightarrow> to_int n \<le> int n"
proof -
  assume h: "0 \<le> to_int n"
  have b: "n mod 2 ^ 32 < (2 ^ 32 :: nat)" by simp
  have "n mod 2 ^ 32 < (2 ^ 31 :: nat)"
  proof (rule ccontr)
    assume "\<not> n mod 2 ^ 32 < (2 ^ 31 :: nat)"
    then have "to_int n = int (n mod 2 ^ 32) - 2 ^ 32" by (simp add: to_int_def)
    with b h show False by simp
  qed
  then have "to_int n = int (n mod 2 ^ 32)" by (simp add: to_int_def)
  moreover have "n mod 2 ^ 32 \<le> n" by simp
  ultimately show ?thesis by linarith
qed

lemma aligned_iff:
  "aligned sz a \<longleftrightarrow> \<not> ((sz = 4 \<and> a AND 3 \<noteq> 0) \<or> (sz = 2 \<and> a AND 1 \<noteq> 0))"
  by (auto simp: aligned_def and_3_mod and_1_mod)

lemma Translate_checked:
  assumes "aligned sz a" "0 < PageSize cfg" "0 \<le> vpn_of cfg a"
    "vpn_of cfg a < int (length (translationTable s))"
  shows "Translate pfm cfg a sz w s =
    (if \<not> readAllowed (translationTable s ! nat (vpn_of cfg a)) \<and>
        \<not> writeAllowed (translationTable s ! nat (vpn_of cfg a))
     then Returns (ADDRESSERROR_EXCEPTION, None, s)
     else if w \<and> \<not> writeAllowed (translationTable s ! nat (vpn_of cfg a))
     then Returns (READONLY_EXCEPTION, None, s)
     else
       (case residency pfm cfg a (nat (vpn_of cfg a)) s of
               Halts \<Rightarrow> Halts
             | Undefined \<Rightarrow> Undefined
             | Returns s1 \<Rightarrow>
                 if physicalPage (translationTable s1 ! nat (vpn_of cfg a)) < 0 \<or>
                    physicalPage (translationTable s1 ! nat (vpn_of cfg a)) \<ge> to_int (NumPhysPages cfg)
                 then Returns (BUSERROR_EXCEPTION, None, s1)
                 else
                   Returns (NO_EXCEPTION,
                        Some (word_of_int
                          (physicalPage (translationTable s1 ! nat (vpn_of cfg a)) * int (PageSize cfg) + to_int (unat a mod PageSize cfg))),
                        s1\<lparr>translationTable := setBitU (if w then setBitM (translationTable s1) (nat (vpn_of cfg a))
                              else translationTable s1) (nat (vpn_of cfg a)), stat := incrMemoryAccess (stat s1)\<rparr>)))"
proof -
  let ?v = "nat (vpn_of cfg a)"
  have al: "((sz = 4 \<and> a AND 3 \<noteq> 0) \<or> (sz = 2 \<and> a AND 1 \<noteq> 0)) = False"
    using assms(1) by (simp add: aligned_iff)
  have ps: "(PageSize cfg = 0) = False"
    using assms(2) by simp
  have rg: "(to_int (unat a div PageSize cfg) \<ge> int (getMaxNumPages (translationTable s))) = False"
    "(to_int (unat a div PageSize cfg) < 0) = False"
    using assms(3,4) by (simp_all add: vpn_of_def getMaxNumPages_def)
  have pp: "physicalPage (setBitU (if w then setBitM t ?v else t) ?v ! ?v)
     = physicalPage (t ! ?v)" for t
    by (cases "?v < length t")
       (simp_all add: getPhysicalPage_def setBitU_def setBitM_def list_update_beyond not_less)
  have "Translate pfm cfg a sz w s =
     (if \<not> getBitReadAllowed (translationTable s) ?v \<and>
                  \<not> getBitWriteAllowed (translationTable s) ?v
          then Returns (ADDRESSERROR_EXCEPTION, None, s)
          else if w \<and> \<not> getBitWriteAllowed (translationTable s) ?v
          then Returns (READONLY_EXCEPTION, None, s)
          else
            (case residency pfm cfg a ?v s of
               Halts \<Rightarrow> Halts
             | Undefined \<Rightarrow> Undefined
             | Returns s1 \<Rightarrow>
                 if getPhysicalPage (translationTable s1) ?v < 0 \<or>
                    getPhysicalPage (translationTable s1) ?v \<ge> to_int (NumPhysPages cfg)
                 then Returns (BUSERROR_EXCEPTION, None, s1)
                 else
                   let tt2 = (if w then setBitM (translationTable s1) ?v
                              else translationTable s1);
                       tt3 = setBitU tt2 ?v;
                       s2 = s1\<lparr>translationTable := tt3, stat := incrMemoryAccess (stat s1)\<rparr>
                   in Returns (NO_EXCEPTION,
                        Some (word_of_int
                          (getPhysicalPage tt3 ?v * int (PageSize cfg) + to_int (unat a mod PageSize cfg))),
                        s2)))"
    unfolding Translate_def Let_def vpn_of_def
    by (simp only: al ps rg if_False)
  then show ?thesis
    by (simp add: Let_def pp getBitReadAllowed_def getBitWriteAllowed_def getPhysicalPage_def
          cong: outcome.case_cong if_cong)
qed


lemma Translate_unchecked:
  assumes "aligned sz a"
  shows "Translate pfm cfg a sz w s = Returns (BUSERROR_EXCEPTION, pa, s')
    \<Longrightarrow> 0 < PageSize cfg \<and> 0 \<le> vpn_of cfg a \<and> vpn_of cfg a < int (length (translationTable s))"
proof -
  have al: "((sz = 4 \<and> a AND 3 \<noteq> 0) \<or> (sz = 2 \<and> a AND 1 \<noteq> 0)) = False"
    using assms(1) by (simp add: aligned_iff)
  assume "Translate pfm cfg a sz w s = Returns (BUSERROR_EXCEPTION, pa, s')"
  then show ?thesis
    unfolding Translate_def Let_def vpn_of_def [symmetric] getMaxNumPages_def
    by (simp only: al if_False) (auto split: if_splits)
qed

lemma residency_Returns:
  assumes "residency pfm cfg a v s = Returns s1" "v < length (translationTable s)"
  shows "v < length (translationTable s1) \<and> valid (translationTable s1 ! v)"
  using assms
  by (auto simp: residency_def getBitValid_def getMaxNumPages_def
      split: if_splits outcome.splits)

text \<open>
  Claim C5. A 4-byte access at an address that is not a multiple of 4 and a 2-byte access
  at an odd address return \<open>BUSERROR_EXCEPTION\<close> with the state untouched, whatever the
  translation table, the page fault service, the configuration and the direction of the
  access: the alignment test comes before every other check. A 1-byte or 8-byte access
  is never rejected for its alignment: when it returns \<open>BUSERROR_EXCEPTION\<close>, the page
  is in range and the frame number of its entry is outside physical memory.
\<close>

theorem Translate_alignment:
  "((sz = 4 \<and> unat a mod 4 \<noteq> 0) \<or> (sz = 2 \<and> unat a mod 2 \<noteq> 0)
       \<longrightarrow> Translate pfm cfg a sz w s = Returns (BUSERROR_EXCEPTION, None, s))
   \<and> ((sz = 1 \<or> sz = 8) \<and> Translate pfm cfg a sz w s = Returns (BUSERROR_EXCEPTION, pa, s')
       \<longrightarrow> 0 \<le> vpn_of cfg a \<and> vpn_of cfg a < int (length (translationTable s'))
         \<and> \<not> (0 \<le> physicalPage (translationTable s' ! nat (vpn_of cfg a))
              \<and> physicalPage (translationTable s' ! nat (vpn_of cfg a)) < to_int (NumPhysPages cfg)))"
proof (intro conjI impI)
  assume "(sz = 4 \<and> unat a mod 4 \<noteq> 0) \<or> (sz = 2 \<and> unat a mod 2 \<noteq> 0)"
  then have "(sz = 4 \<and> a AND 3 \<noteq> 0) \<or> (sz = 2 \<and> a AND 1 \<noteq> 0)"
    by (simp add: and_3_mod and_1_mod)
  then show "Translate pfm cfg a sz w s = Returns (BUSERROR_EXCEPTION, None, s)"
    unfolding Translate_def by (simp only: if_True)
next
  assume h: "(sz = 1 \<or> sz = 8) \<and> Translate pfm cfg a sz w s = Returns (BUSERROR_EXCEPTION, pa, s')"
  then have al: "aligned sz a" by (auto simp: aligned_def)
  from h have tr: "Translate pfm cfg a sz w s = Returns (BUSERROR_EXCEPTION, pa, s')" by simp
  note chk = Translate_unchecked [OF al tr]
  from chk have v: "nat (vpn_of cfg a) < length (translationTable s)" by linarith
  from tr obtain s1 where r: "residency pfm cfg a (nat (vpn_of cfg a)) s = Returns s1"
    and s1: "s' = s1"
    and bad: "physicalPage (translationTable s1 ! nat (vpn_of cfg a)) < 0 \<or>
        to_int (NumPhysPages cfg) \<le> physicalPage (translationTable s1 ! nat (vpn_of cfg a))"
    using chk by (auto simp: Translate_checked [OF al] split: if_splits outcome.splits)
  from residency_Returns [OF r v] s1 bad chk
  show "0 \<le> vpn_of cfg a" 
    "vpn_of cfg a < int (length (translationTable s'))"
    "\<not> (0 \<le> physicalPage (translationTable s' ! nat (vpn_of cfg a))
              \<and> physicalPage (translationTable s' ! nat (vpn_of cfg a)) < to_int (NumPhysPages cfg))"
    by auto
qed

text \<open>
  Claim C6. An aligned access to a page in range whose entry has neither \<open>readAllowed\<close>
  nor \<open>writeAllowed\<close> returns \<open>ADDRESSERROR_EXCEPTION\<close>, whatever the valid bit of the
  entry and whether the access reads or writes.
\<close>

theorem Translate_unmapped:
  assumes "aligned sz a" "0 < PageSize cfg" "0 \<le> vpn_of cfg a"
    "vpn_of cfg a < int (length (translationTable s))"
    "\<not> readAllowed (translationTable s ! nat (vpn_of cfg a))"
    "\<not> writeAllowed (translationTable s ! nat (vpn_of cfg a))"
  shows "Translate pfm cfg a sz w s = Returns (ADDRESSERROR_EXCEPTION, None, s)"
  using assms(5,6) by (simp add: Translate_checked [OF assms(1-4)])


lemma to_int_as_uint64:
  assumes "n < 2 ^ 31"
  shows "nat (to_int n mod 2 ^ 64) = n"
proof -
  have "n < 2 ^ 64" using assms by (rule less_trans) simp
  then have "int n mod 2 ^ 64 = int n" by simp
  then show ?thesis by (simp add: to_int_small [OF assms])
qed

lemma PageFault_page_low:
  assumes "unat a < 2 ^ 31"
  shows "PageFault_page cfg (to_int (unat a)) = unat a div PageSize cfg"
  by (simp only: PageFault_page_def to_int_as_uint64 [OF assms])

lemma residency_iff:
  assumes "0 < PageSize cfg"
  shows "(residency pfm cfg a v s = Returns s1) = becomes_resident pfm cfg a v s s1"
  unfolding residency_def becomes_resident_def ExceptionHandler_PAGEFAULT_def
    getBitValid_def getMaxNumPages_def
  using assms by (auto split: outcome.splits if_splits)

lemma to_int_mod: "to_int n mod 2 ^ 32 = int n mod 2 ^ 32"
proof -
  have "(int (n mod 2 ^ 32) - 2 ^ 32) mod 2 ^ 32 = int (n mod 2 ^ 32) mod 2 ^ 32"
    by (metis minus_mod_self2)
  then show ?thesis
    by (simp add: to_int_def zmod_int)
qed

lemma unat_physAddr:
  assumes "0 \<le> pp"
  shows "unat (word_of_int (pp * int ps + to_int off) :: 32 word) = (nat pp * ps + off) mod 2 ^ 32"
proof -
  have "(pp * int ps + to_int off) mod 2 ^ 32 = (pp * int ps + int off) mod 2 ^ 32"
    using to_int_mod [of off] by (metis mod_add_right_eq)
  also have "\<dots> = int ((nat pp * ps + off) mod 2 ^ 32)"
    using assms by (simp add: zmod_int)
  finally have "(pp * int ps + to_int off) mod 2 ^ 32 = int ((nat pp * ps + off) mod 2 ^ 32)" .
  moreover have "unat (word_of_int k :: 32 word) = nat (k mod 2 ^ 32)" for k
    by (simp add: unsigned_of_int take_bit_eq_mod)
  ultimately show ?thesis
    by (simp only: nat_int)
qed

text \<open>
  Claim C1, amended. When an access passes the alignment, range, mapped and permission
  checks, its entry is valid or is made valid by the page fault service, and the frame
  number passes the bounds check, \<open>Translate\<close> returns \<open>NO_EXCEPTION\<close>; the address
  stored is \<open>physicalPage * PageSize + virtAddr mod PageSize\<close> reduced modulo \<open>2 ^ 32\<close>,
  the range of the \<^verbatim>\<open>uint32_t\<close> it is stored in, which is that sum itself as soon as
  physical memory (\<open>NumPhysPages * PageSize\<close> bytes) is addressable on 32 bits; the used
  bit of the entry is set, and its modified bit is set exactly when the access writes
  (otherwise it keeps its value).
\<close>

theorem Translate_success:
  assumes "aligned sz a" "0 < PageSize cfg" "0 \<le> vpn_of cfg a"
    "vpn_of cfg a < int (length (translationTable s))"
    "readAllowed (translationTable s ! nat (vpn_of cfg a)) \<or>
     writeAllowed (translationTable s ! nat (vpn_of cfg a))"
    "w \<longrightarrow> writeAllowed (translationTable s ! nat (vpn_of cfg a))"
    "becomes_resident pfm cfg a (nat (vpn_of cfg a)) s s1"
    "frame_in_bounds cfg s1 (nat (vpn_of cfg a))"
  shows "\<exists>pa s2. Translate pfm cfg a sz w s = Returns (NO_EXCEPTION, Some pa, s2) \<and>
     unat pa = (nat (physicalPage (translationTable s1 ! nat (vpn_of cfg a))) * PageSize cfg
                 + unat a mod PageSize cfg) mod 2 ^ 32 \<and>
     (NumPhysPages cfg * PageSize cfg \<le> 2 ^ 32 \<longrightarrow>
        unat pa = nat (physicalPage (translationTable s1 ! nat (vpn_of cfg a))) * PageSize cfg
                 + unat a mod PageSize cfg) \<and>
     used (translationTable s2 ! nat (vpn_of cfg a)) \<and>
     (modified (translationTable s2 ! nat (vpn_of cfg a)) \<longleftrightarrow>
        w \<or> modified (translationTable s1 ! nat (vpn_of cfg a)))"
proof -
  let ?v = "nat (vpn_of cfg a)"
  let ?pp = "physicalPage (translationTable s1 ! ?v)"
  let ?tt = "setBitU (if w then setBitM (translationTable s1) ?v else translationTable s1) ?v"
  let ?pa = "word_of_int (?pp * int (PageSize cfg) + to_int (unat a mod PageSize cfg)) :: 32 word"
  let ?s2 = "s1\<lparr>translationTable := ?tt, stat := incrMemoryAccess (stat s1)\<rparr>"
  have r: "residency pfm cfg a ?v s = Returns s1"
    using assms(7) by (simp add: residency_iff [OF assms(2)])
  have v: "?v < length (translationTable s)" using assms(3,4) by linarith
  have v1: "?v < length (translationTable s1)" using residency_Returns [OF r v] by simp
  have fb: "0 \<le> ?pp" "?pp < to_int (NumPhysPages cfg)"
    using assms(8) by (simp_all add: frame_in_bounds_def)
  have tr: "Translate pfm cfg a sz w s = Returns (NO_EXCEPTION, Some ?pa, ?s2)"
    using assms(5,6) fb r by (simp add: Translate_checked [OF assms(1-4)])
  have pa: "unat ?pa = (nat ?pp * PageSize cfg + unat a mod PageSize cfg) mod 2 ^ 32"
    by (rule unat_physAddr [OF fb(1)])
  have exact: "unat ?pa = nat ?pp * PageSize cfg + unat a mod PageSize cfg"
    if mem: "NumPhysPages cfg * PageSize cfg \<le> 2 ^ 32"
  proof -
    have "?pp < int (NumPhysPages cfg)" using fb to_int_le [of "NumPhysPages cfg"] by linarith
    then have "nat ?pp + 1 \<le> NumPhysPages cfg" using fb(1) by linarith
    then have "(nat ?pp + 1) * PageSize cfg \<le> NumPhysPages cfg * PageSize cfg"
      by (rule mult_le_mono1)
    moreover have "unat a mod PageSize cfg < PageSize cfg" using assms(2) by simp
    ultimately have "nat ?pp * PageSize cfg + unat a mod PageSize cfg < 2 ^ 32"
      using mem by simp
    then show ?thesis using pa by simp
  qed
  have u: "used (translationTable ?s2 ! ?v)"
    using v1 by (simp add: incrMemoryAccess_def setBitU_def setBitM_def)
  have m: "modified (translationTable ?s2 ! ?v) \<longleftrightarrow> w \<or> modified (translationTable s1 ! ?v)"
    using v1 by (simp add: incrMemoryAccess_def setBitU_def setBitM_def)
  from tr pa exact u m show ?thesis by blast
qed


text \<open>
  Claim C7. On an aligned access to a page in range that is readable and not writable,
  a write returns \<open>READONLY_EXCEPTION\<close>, and a read returns \<open>NO_EXCEPTION\<close> with a
  physical address whenever the residency step passes (the entry is valid, or the
  handler's call of the page fault service comes back with the entry valid) and the
  frame number is inside physical memory.
\<close>

theorem Translate_read_only:
  assumes "aligned sz a" "0 < PageSize cfg" "0 \<le> vpn_of cfg a"
    "vpn_of cfg a < int (length (translationTable s))"
    "readAllowed (translationTable s ! nat (vpn_of cfg a))"
    "\<not> writeAllowed (translationTable s ! nat (vpn_of cfg a))"
  shows "Translate pfm cfg a sz True s = Returns (READONLY_EXCEPTION, None, s) \<and>
    (becomes_resident pfm cfg a (nat (vpn_of cfg a)) s s1 \<and>
     frame_in_bounds cfg s1 (nat (vpn_of cfg a)) \<longrightarrow>
       (\<exists>pa s2. Translate pfm cfg a sz False s = Returns (NO_EXCEPTION, Some pa, s2)))"
proof (intro conjI impI)
  show "Translate pfm cfg a sz True s = Returns (READONLY_EXCEPTION, None, s)"
    using assms(5,6) by (simp add: Translate_checked [OF assms(1-4)])
next
  assume h: "becomes_resident pfm cfg a (nat (vpn_of cfg a)) s s1 \<and>
     frame_in_bounds cfg s1 (nat (vpn_of cfg a))"
  then have r: "residency pfm cfg a (nat (vpn_of cfg a)) s = Returns s1"
    by (simp add: residency_iff [OF assms(2)])
  from h have "0 \<le> physicalPage (translationTable s1 ! nat (vpn_of cfg a))"
    "physicalPage (translationTable s1 ! nat (vpn_of cfg a)) < to_int (NumPhysPages cfg)"
    by (simp_all add: frame_in_bounds_def)
  then show "\<exists>pa s2. Translate pfm cfg a sz False s = Returns (NO_EXCEPTION, Some pa, s2)"
    using assms(5) r by (simp add: Translate_checked [OF assms(1-4)])
qed

text \<open>
  What the residency step does on an aligned access that passes the range, mapped and
  permission checks and whose entry is not valid. The page fault service is called, on
  the state with the fault counted, with the page number the handler computes. If the
  service returns and the entry is still not valid, the kernel halts. Whenever
  \<open>Translate\<close> returns, the service has returned \<open>NO_EXCEPTION\<close> with the entry valid,
  and the code returned is that of the rest of the translation. If the service made the
  entry valid, translation goes on as for a resident page.
\<close>

lemma Translate_page_fault_service:
  assumes "aligned sz a" "0 < PageSize cfg" "0 \<le> vpn_of cfg a"
    "vpn_of cfg a < int (length (translationTable s))"
    "readAllowed (translationTable s ! nat (vpn_of cfg a)) \<or>
     writeAllowed (translationTable s ! nat (vpn_of cfg a))"
    "w \<longrightarrow> writeAllowed (translationTable s ! nat (vpn_of cfg a))"
    "\<not> valid (translationTable s ! nat (vpn_of cfg a))"
  shows
   "(\<forall>e s1. pfm (PageFault_page cfg (to_int (unat a))) (s\<lparr>stat := incrPageFault (stat s)\<rparr>)
          = Returns (e, s1) \<and>
        nat (vpn_of cfg a) < length (translationTable s1) \<and>
        \<not> valid (translationTable s1 ! nat (vpn_of cfg a))
        \<longrightarrow> Translate pfm cfg a sz w s = Halts) \<and>
    (\<forall>e pa s2. Translate pfm cfg a sz w s = Returns (e, pa, s2) \<longrightarrow>
        (\<exists>s1. pfm (PageFault_page cfg (to_int (unat a))) (s\<lparr>stat := incrPageFault (stat s)\<rparr>)
             = Returns (NO_EXCEPTION, s1) \<and>
           valid (translationTable s1 ! nat (vpn_of cfg a)) \<and>
           (if frame_in_bounds cfg s1 (nat (vpn_of cfg a))
            then e = NO_EXCEPTION else e = BUSERROR_EXCEPTION \<and> s2 = s1))) \<and>
    (\<forall>s1. pfm (PageFault_page cfg (to_int (unat a))) (s\<lparr>stat := incrPageFault (stat s)\<rparr>)
          = Returns (NO_EXCEPTION, s1) \<and>
        nat (vpn_of cfg a) < length (translationTable s1) \<and>
        valid (translationTable s1 ! nat (vpn_of cfg a))
        \<longrightarrow> (if frame_in_bounds cfg s1 (nat (vpn_of cfg a))
             then \<exists>pa s2. Translate pfm cfg a sz w s = Returns (NO_EXCEPTION, Some pa, s2)
             else Translate pfm cfg a sz w s = Returns (BUSERROR_EXCEPTION, None, s1)))"
proof -
  let ?v = "nat (vpn_of cfg a)"
  let ?p = "PageFault_page cfg (to_int (unat a))"
  note tr = Translate_checked [OF assms(1-4), of pfm w]
  have res: "residency pfm cfg a ?v s =
     (case pfm ?p (s\<lparr>stat := incrPageFault (stat s)\<rparr>) of
        Returns (e, s') \<Rightarrow>
          if e \<noteq> NO_EXCEPTION then Halts
          else if length (translationTable s') \<le> ?v then Undefined
          else if \<not> valid (translationTable s' ! ?v) then Halts
          else Returns s'
      | Halts \<Rightarrow> Halts
      | Undefined \<Rightarrow> Undefined)"
    using assms(2,7)
    unfolding residency_def ExceptionHandler_PAGEFAULT_def getBitValid_def getMaxNumPages_def
    by (auto split: outcome.splits)
  have 1: "Translate pfm cfg a sz w s = Halts"
    if "pfm ?p (s\<lparr>stat := incrPageFault (stat s)\<rparr>) = Returns (e, s1)"
      "?v < length (translationTable s1)"
      "\<not> valid (translationTable s1 ! ?v)" for e s1
    using that assms(5,6) by (simp add: tr res)
  have 2: "\<exists>s1. pfm ?p (s\<lparr>stat := incrPageFault (stat s)\<rparr>) = Returns (NO_EXCEPTION, s1) \<and>
           valid (translationTable s1 ! ?v) \<and>
           (if frame_in_bounds cfg s1 ?v
            then e = NO_EXCEPTION else e = BUSERROR_EXCEPTION \<and> s2 = s1)"
    if t: "Translate pfm cfg a sz w s = Returns (e, pa, s2)" for e pa s2
  proof -
    from t assms(5,6) obtain s1 where r: "residency pfm cfg a ?v s = Returns s1"
      and e: "if frame_in_bounds cfg s1 ?v
            then e = NO_EXCEPTION else e = BUSERROR_EXCEPTION \<and> s2 = s1"
      unfolding tr frame_in_bounds_def
      by (cases "residency pfm cfg a ?v s") (auto split: if_splits)
    from r assms(7) have "pfm ?p (s\<lparr>stat := incrPageFault (stat s)\<rparr>)
           = Returns (NO_EXCEPTION, s1) \<and> valid (translationTable s1 ! ?v)"
      by (simp add: residency_iff [OF assms(2)] becomes_resident_def)
    with e show ?thesis by blast
  qed
  have 3: "if frame_in_bounds cfg s1 ?v
             then \<exists>pa s2. Translate pfm cfg a sz w s = Returns (NO_EXCEPTION, Some pa, s2)
             else Translate pfm cfg a sz w s = Returns (BUSERROR_EXCEPTION, None, s1)"
    if "pfm ?p (s\<lparr>stat := incrPageFault (stat s)\<rparr>) = Returns (NO_EXCEPTION, s1)"
      "?v < length (translationTable s1)" "valid (translationTable s1 ! ?v)" for s1
    using that assms(5,6) by (auto simp: tr res frame_in_bounds_def)
  from 1 2 3 show ?thesis by blast
qed

text \<open>
  Below \<open>2 ^ 31\<close> the page number handed to the service is the page of the address.
\<close>

lemma PageFault_page_is_vpn:
  assumes "unat a < 2 ^ 31"
  shows "int (PageFault_page cfg (to_int (unat a))) = vpn_of cfg a"
proof -
  have "unat a div PageSize cfg \<le> unat a" by simp
  with assms have "unat a div PageSize cfg < 2 ^ 31" by linarith
  then show ?thesis
    by (simp add: PageFault_page_low [OF assms] vpn_of_def to_int_small)
qed

lemma Translate_NO_EXCEPTION:
  assumes "Translate pfm cfg a sz w s = Returns (NO_EXCEPTION, po, s')"
  shows "aligned sz a \<and> 0 < PageSize cfg \<and> 0 \<le> vpn_of cfg a \<and>
    vpn_of cfg a < int (length (translationTable s))"
proof -
  have al: "aligned sz a"
  proof (rule ccontr)
    assume "\<not> aligned sz a"
    then have "(sz = 4 \<and> a AND 3 \<noteq> 0) \<or> (sz = 2 \<and> a AND 1 \<noteq> 0)"
      by (simp add: aligned_iff)
    then have "Translate pfm cfg a sz w s = Returns (BUSERROR_EXCEPTION, None, s)"
      unfolding Translate_def by (simp only: if_True)
    with assms show False by simp
  qed
  then have f: "((sz = 4 \<and> a AND 3 \<noteq> 0) \<or> (sz = 2 \<and> a AND 1 \<noteq> 0)) = False"
    by (simp add: aligned_iff)
  from assms have "0 < PageSize cfg \<and> 0 \<le> vpn_of cfg a \<and>
    vpn_of cfg a < int (length (translationTable s))"
    unfolding Translate_def Let_def vpn_of_def [symmetric] getMaxNumPages_def
    by (simp only: f if_False) (auto split: if_splits)
  with al show ?thesis by simp
qed

text \<open>
  Claim C10. If a call to \<open>Translate\<close> returns \<open>NO_EXCEPTION\<close> with physical address
  \<open>p\<close>, the same call on the state it leaves returns \<open>NO_EXCEPTION\<close> with \<open>p\<close> again.
  The permission bits of the page are those of before the first call: \<open>Translate\<close>
  never writes them, and the page fault service, which lies outside the translator, is
  taken not to change them when it loads the page (section 4.4: it sets the frame
  number and the valid bit).
\<close>

theorem Translate_twice:
  assumes "Translate pfm cfg a sz w s = Returns (NO_EXCEPTION, Some p, s1)"
    "readAllowed (translationTable s1 ! nat (vpn_of cfg a)) =
       readAllowed (translationTable s ! nat (vpn_of cfg a))"
    "writeAllowed (translationTable s1 ! nat (vpn_of cfg a)) =
       writeAllowed (translationTable s ! nat (vpn_of cfg a))"
  shows "\<exists>s2. Translate pfm cfg a sz w s1 = Returns (NO_EXCEPTION, Some p, s2)"
proof -
  let ?v = "nat (vpn_of cfg a)"
  note c = Translate_NO_EXCEPTION [OF assms(1)]
  from c have al: "aligned sz a" and ps: "0 < PageSize cfg" and v0: "0 \<le> vpn_of cfg a"
    and vl: "vpn_of cfg a < int (length (translationTable s))" by simp_all
  have v: "?v < length (translationTable s)" using v0 vl by linarith
  note tr = Translate_checked [OF al ps v0 vl, of pfm w]
  from assms(1) have perm: "readAllowed (translationTable s ! ?v) \<or> writeAllowed (translationTable s ! ?v)"
    "w \<longrightarrow> writeAllowed (translationTable s ! ?v)"
    unfolding tr by (auto split: if_splits)
  from assms(1) perm obtain s0 where r: "residency pfm cfg a ?v s = Returns s0"
    and fb: "0 \<le> physicalPage (translationTable s0 ! ?v)"
      "physicalPage (translationTable s0 ! ?v) < to_int (NumPhysPages cfg)"
    and p: "p = word_of_int (physicalPage (translationTable s0 ! ?v) * int (PageSize cfg)
                 + to_int (unat a mod PageSize cfg))"
    and s1: "s1 = s0\<lparr>translationTable :=
         setBitU (if w then setBitM (translationTable s0) ?v else translationTable s0) ?v,
         stat := incrMemoryAccess (stat s0)\<rparr>"
    unfolding tr
    by (cases "residency pfm cfg a ?v s") (auto split: if_splits)
  from residency_Returns [OF r v] have v0': "?v < length (translationTable s0)"
    and val0: "valid (translationTable s0 ! ?v)" by simp_all
  have len1: "length (translationTable s1) = length (translationTable s0)"
    by (simp add: s1 incrMemoryAccess_def setBitU_def setBitM_def)
  have val1: "valid (translationTable s1 ! ?v)"
    using v0' val0 by (simp add: s1 incrMemoryAccess_def setBitU_def setBitM_def)
  have pp1: "physicalPage (translationTable s1 ! ?v) = physicalPage (translationTable s0 ! ?v)"
    using v0' by (simp add: s1 incrMemoryAccess_def setBitU_def setBitM_def)
  have vl1: "vpn_of cfg a < int (length (translationTable s1))"
    using v0' v0 len1 by linarith
  have r1: "residency pfm cfg a ?v s1 = Returns s1"
    using val1 by (simp add: residency_def getBitValid_def)
  show ?thesis
    using perm assms(2,3) r1 fb pp1 p
    by (simp add: Translate_checked [OF al ps v0 vl1])
qed

lemmas mmu_eval = cfg0_def tt0_def s0_def pfm_load_def pfm_idle_def s0_loaded_def
  aligned_def vpn_of_def to_int_def frame_in_bounds_def becomes_resident_def incrPageFault_def
  PageFault_page_def

lemmas big_eval = cfg_big_def tt_big_def s_big_def s_big_read_def pfm_in_table_def pfm_idle_def
  aligned_def vpn_of_def to_int_def frame_in_bounds_def incrPageFault_def PageFault_page_def
  Translate_def Let_def residency_def ExceptionHandler_PAGEFAULT_def getBitValid_def
  getMaxNumPages_def getBitReadAllowed_def getBitWriteAllowed_def getPhysicalPage_def
  setBitU_def setBitM_def incrMemoryAccess_def

theorem Translate_alignment_witness:
  "Translate pfm_load cfg0 0x1003 4 False s0 = Returns (BUSERROR_EXCEPTION, None, s0) \<and>
   Translate pfm_load cfg0 0x1002 4 True s0 = Returns (BUSERROR_EXCEPTION, None, s0) \<and>
   Translate pfm_load cfg0 0x1001 2 False s0 = Returns (BUSERROR_EXCEPTION, None, s0) \<and>
   Translate pfm_load cfg0 0x201 1 False s0 = Returns (BUSERROR_EXCEPTION, None, s0) \<and>
   \<not> frame_in_bounds cfg0 s0 4"
proof -
  have t: "Translate pfm_load cfg0 0x201 1 False s0 = Returns (BUSERROR_EXCEPTION, None, s0)"
    by (simp add: Translate_def Let_def residency_def getBitValid_def getMaxNumPages_def
        getBitReadAllowed_def getBitWriteAllowed_def getPhysicalPage_def mmu_eval)
  show ?thesis
    using Translate_alignment [of 4 "0x1003" pfm_load cfg0 False s0]
      Translate_alignment [of 4 "0x1002" pfm_load cfg0 True s0]
      Translate_alignment [of 2 "0x1001" pfm_load cfg0 False s0]
      Translate_alignment [of 1 "0x201" pfm_load cfg0 False s0 None s0] t
    by (simp add: mmu_eval)
qed

theorem Translate_unmapped_witness:
  "aligned 4 0x100 \<and> vpn_of cfg0 0x100 = 2 \<and>
   Translate pfm_load cfg0 0x100 4 False s0 = Returns (ADDRESSERROR_EXCEPTION, None, s0) \<and>
   Translate pfm_load cfg0 0x100 4 True s0 = Returns (ADDRESSERROR_EXCEPTION, None, s0)"
  using Translate_unmapped [of 4 "0x100" cfg0 s0 pfm_load False]
    Translate_unmapped [of 4 "0x100" cfg0 s0 pfm_load True]
  by (simp add: mmu_eval)

theorem Translate_read_only_witness:
  "aligned 4 0x84 \<and> vpn_of cfg0 0x84 = 1 \<and>
   Translate pfm_load cfg0 0x84 4 True s0 = Returns (READONLY_EXCEPTION, None, s0) \<and>
   (\<exists>pa s2. Translate pfm_load cfg0 0x84 4 False s0 = Returns (NO_EXCEPTION, Some pa, s2))"
  using Translate_read_only [of 4 "0x84" cfg0 s0 pfm_load s0]
  by (simp add: mmu_eval)

theorem Translate_success_witness:
  "(\<exists>pa s2. Translate pfm_load cfg0 0x188 4 True s0 = Returns (NO_EXCEPTION, Some pa, s2) \<and>
      unat pa = 0x188 \<and>
      used (translationTable s2 ! 3) \<and> modified (translationTable s2 ! 3)) \<and>
   (\<exists>pa s2. Translate pfm_load cfg0 0x7 1 False s0 = Returns (NO_EXCEPTION, Some pa, s2) \<and>
      unat pa = 0x107 \<and>
      used (translationTable s2 ! 0) \<and> \<not> modified (translationTable s2 ! 0))"
  using Translate_success [of 4 "0x188" cfg0 s0 True pfm_load s0_loaded]
    Translate_success [of 1 "0x7" cfg0 s0 False pfm_load s0]
  by (simp add: mmu_eval)

text \<open>
  Claim C1, as stated, fails where physical memory is larger than a \<^verbatim>\<open>uint32_t\<close> address
  reaches. With pages of \<open>2 ^ 31\<close> bytes, a 4-byte read at address 4 of a page resident in
  frame 3 passes every check and returns \<open>NO_EXCEPTION\<close>; the address stored is
  2147483652, while \<open>physicalPage * PageSize + virtAddr mod PageSize\<close> is 6442450948.
\<close>

theorem Translate_address_wraps:
  "aligned 4 4 \<and> vpn_of cfg_big 4 = 0 \<and>
   readAllowed (translationTable s_big ! 0) \<and> valid (translationTable s_big ! 0) \<and>
   frame_in_bounds cfg_big s_big 0 \<and>
   Translate pfm_idle cfg_big 4 4 False s_big
     = Returns (NO_EXCEPTION, Some 2147483652, s_big_read) \<and>
   physicalPage (translationTable s_big ! 0) * int (PageSize cfg_big)
     + int (unat (4 :: 32 word) mod PageSize cfg_big) = 6442450948"
  by (simp add: big_eval)

text \<open>
  Claim C3. On a 1-byte read at address \<open>2 ^ 31\<close> with pages of \<open>2 ^ 31\<close> bytes, the
  access is to page 1, which is in range, readable and not resident. The handler
  receives the address as a negative \<^verbatim>\<open>int\<close> and calls the page fault service for page
  8589934591 instead of page 1. A service that loads the page it is asked for would
  make page 1 valid if asked for page 1; asked for the other page it leaves page 1 as it
  is, and the kernel halts.
\<close>

theorem Translate_page_fault_wrong_page:
  "vpn_of cfg_big 0x80000000 = 1 \<and>
   readAllowed (translationTable s_big ! 1) \<and> \<not> valid (translationTable s_big ! 1) \<and>
   PageFault_page cfg_big (to_int (unat (0x80000000 :: 32 word))) = 8589934591 \<and>
   (\<exists>s1. pfm_in_table 1 (s_big\<lparr>stat := incrPageFault (stat s_big)\<rparr>)
            = Returns (NO_EXCEPTION, s1) \<and> valid (translationTable s1 ! 1)) \<and>
   Translate pfm_in_table cfg_big 0x80000000 1 False s_big = Halts"
  by (simp add: big_eval)

theorem Translate_twice_witness:
  "\<exists>s1 s2. Translate pfm_load cfg0 0x188 4 True s0 = Returns (NO_EXCEPTION, Some 0x188, s1) \<and>
     Translate pfm_load cfg0 0x188 4 True s1 = Returns (NO_EXCEPTION, Some 0x188, s2)"
proof -
  have t: "Translate pfm_load cfg0 0x188 4 True s0 = Returns (NO_EXCEPTION, Some 0x188,
     s0_loaded\<lparr>translationTable := setBitU (setBitM (translationTable s0_loaded) 3) 3,
        stat := incrMemoryAccess (stat s0_loaded)\<rparr>)"
    by (simp add: Translate_def Let_def residency_def getBitValid_def getMaxNumPages_def
        ExceptionHandler_PAGEFAULT_def setBitU_def setBitM_def incrMemoryAccess_def
        getBitReadAllowed_def getBitWriteAllowed_def getPhysicalPage_def mmu_eval)
  show ?thesis
    using Translate_twice [OF t] t
    by (simp add: mmu_eval setBitU_def setBitM_def incrMemoryAccess_def)
qed

section \<open>Properties of the physical memory manager\<close>





lemma maps_to_tpr_update [simp]: "maps_to (s\<lparr>tpr := x\<rparr>) ow vp f = maps_to s ow vp f"
  by (simp add: maps_to_def table_of_def)






















text \<open>
  Claim C2. With both frames occupied, frame 1 unlocked and the used bit of its page
  clear, \<^verbatim>\<open>EvictPage\<close> does not return a frame: it stops the kernel.
\<close>

theorem EvictPage_halts:
  "free_page_list pmm_full = [] \<and> \<not> free (tpr pmm_full ! 0) \<and> \<not> free (tpr pmm_full ! 1) \<and>
   \<not> locked (tpr pmm_full ! 1) \<and> \<not> used (the (addrspaces pmm_full ! 0) ! 0) \<and>
   EvictPage pmm_full = Halts"
  by (simp add: pmm_full_def EvictPage_def)

section \<open>Properties of the swap manager\<close>

lemma WriteSector_Returns:
  "base + PageSize cfg \<le> length (mainMemory s) \<Longrightarrow>
   WriteSector cfg sector base s =
     Returns (s\<lparr>swap_disk := (swap_disk s)
              (sector := \<lambda>j. if j < PageSize cfg then mainMemory s ! (base + j)
                              else swap_disk s sector j)\<rparr>)"
  by (simp add: WriteSector_def)

text \<open>The scan finds the first clear bit at or after its starting index.\<close>

lemma GetFreeSwapSector_from_found:
  assumes "length (page_flags s) = n" "i \<le> k" "k < n" "\<not> page_flags s ! k"
    "\<forall>j. i \<le> j \<and> j < k \<longrightarrow> page_flags s ! j"
  shows "GetFreeSwapSector_from n i s =
     Returns (word_of_nat k, s\<lparr>page_flags := (page_flags s)[k := True]\<rparr>)"
  using assms
proof (induction n i s rule: GetFreeSwapSector_from.induct)
  case (1 n i s)
  show ?case
  proof (cases "i = k")
    case True
    with 1 show ?thesis
      by (subst GetFreeSwapSector_from.simps) (simp add: Test_def Mark_def)
  next
    case False
    with 1 have ik: "i < k" by simp
    with 1 have fl: "page_flags s ! i" by simp
    have "GetFreeSwapSector_from n i s = GetFreeSwapSector_from n (i + 1) s"
      using 1 ik fl by (subst GetFreeSwapSector_from.simps) (simp add: Test_def)
    also have "\<dots> = Returns (word_of_nat k, s\<lparr>page_flags := (page_flags s)[k := True]\<rparr>)"
      using 1 ik fl by (intro "1.IH") (auto simp: Test_def)
    finally show ?thesis .
  qed
qed

lemma GetFreeSwapSector_from_full:
  assumes "length (page_flags s) = n" "\<forall>j. i \<le> j \<and> j < n \<longrightarrow> page_flags s ! j"
  shows "GetFreeSwapSector_from n i s = Returns (word_of_int ERROR, s)"
  using assms
proof (induction n i s rule: GetFreeSwapSector_from.induct)
  case (1 n i s)
  show ?case
  proof (cases "i < n")
    case True
    with 1 have fl: "page_flags s ! i" by simp
    have "GetFreeSwapSector_from n i s = GetFreeSwapSector_from n (i + 1) s"
      using 1 True fl by (subst GetFreeSwapSector_from.simps) (simp add: Test_def)
    also have "\<dots> = Returns (word_of_int ERROR, s)"
      using 1 True fl by (intro "1.IH") (auto simp: Test_def)
    finally show ?thesis .
  next
    case False
    then show ?thesis by (subst GetFreeSwapSector_from.simps) simp
  qed
qed


lemma sector_number_64:
  assumes "k < 2 ^ 31"
  shows "(word_of_nat k :: 64 word) \<noteq> word_of_int INVALID_SECTOR"
    and "unat (word_of_nat k :: 64 word) = k"
    and "unat (ucast (word_of_nat k :: 64 word) :: 32 word) = k"
proof -
  have k64: "k < 2 ^ 64" using assms by (rule less_trans) simp
  have k32: "k < 2 ^ 32" using assms by (rule less_trans) simp
  show u: "unat (word_of_nat k :: 64 word) = k"
    using k64 by (simp add: unat_of_nat take_bit_nat_eq_self)
  have m: "unat (word_of_int INVALID_SECTOR :: 64 word) = 18446744073709551615"
    by (simp add: INVALID_SECTOR_def unsigned_minus_1_eq_mask mask_eq_exp_minus_1)
  show "(word_of_nat k :: 64 word) \<noteq> word_of_int INVALID_SECTOR"
  proof
    assume "(word_of_nat k :: 64 word) = word_of_int INVALID_SECTOR"
    with u m have "k = 18446744073709551615" by simp
    with assms show False by simp
  qed
  show "unat (ucast (word_of_nat k :: 64 word) :: 32 word) = k"
    using k32 u by (simp add: unsigned_ucast_eq take_bit_nat_eq_self)
qed


lemma sentinel_32: "(word_of_int INVALID_SECTOR :: 32 word) = - 1"
  by (simp add: INVALID_SECTOR_def)

lemma PutPageSwap_reuse:
  assumes "disk_addr \<noteq> - 1" "frame_in_memory cfg s pp"
  shows "PutPageSwap cfg ns disk_addr pp s =
    Returns (ucast disk_addr,
      s\<lparr>swap_disk := (swap_disk s)
          (unat disk_addr := \<lambda>j. if j < PageSize cfg then mainMemory s ! (pp * PageSize cfg + j)
                                   else swap_disk s (unat disk_addr) j)\<rparr>)"
  using assms
  by (simp add: PutPageSwap_def sentinel_32 frame_in_memory_def WriteSector_Returns)

lemma PutPageSwap_fresh:
  assumes "length (page_flags s) = ns" "ns < 2 ^ 31" "first_clear (page_flags s) k"
    "frame_in_memory cfg s pp"
  shows "PutPageSwap cfg ns (- 1) pp s =
    Returns (word_of_nat k,
      s\<lparr>page_flags := (page_flags s)[k := True],
        swap_disk := (swap_disk s)
          (k := \<lambda>j. if j < PageSize cfg then mainMemory s ! (pp * PageSize cfg + j)
                      else swap_disk s k j)\<rparr>)"
proof -
  from assms(1,3) have k: "k < ns" "\<not> page_flags s ! k" "\<forall>j. 0 \<le> j \<and> j < k \<longrightarrow> page_flags s ! j"
    by (simp_all add: first_clear_def)
  have g: "GetFreeSwapSector ns s =
      Returns (word_of_nat k, s\<lparr>page_flags := (page_flags s)[k := True]\<rparr>)"
    unfolding GetFreeSwapSector_def
    by (rule GetFreeSwapSector_from_found [OF assms(1) _ k]) simp
  from k(1) assms(2) have k31: "k < 2 ^ 31" by simp
  note w = sector_number_64 [OF k31]
  have m: "pp * PageSize cfg + PageSize cfg
      \<le> length (mainMemory (s\<lparr>page_flags := (page_flags s)[k := True]\<rparr>))"
    using assms(4) by (simp add: frame_in_memory_def)
  show ?thesis
    by (simp add: PutPageSwap_def sentinel_32 g w WriteSector_Returns [OF m]
        cong del: if_weak_cong)
qed

lemma PutPageSwap_full:
  assumes "length (page_flags s) = ns" "\<forall>j < ns. page_flags s ! j"
  shows "PutPageSwap cfg ns (- 1) pp s = Returns (- 1, s)"
proof -
  have g: "GetFreeSwapSector ns s = Returns (word_of_int ERROR, s)"
    unfolding GetFreeSwapSector_def
    using assms(2) by (intro GetFreeSwapSector_from_full [OF assms(1)]) simp
  show ?thesis
    by (simp add: PutPageSwap_def sentinel_32 g ERROR_def INVALID_SECTOR_def)
qed

text \<open>
  Claim C8. Called with a sector other than the sentinel, \<^verbatim>\<open>PutPageSwap\<close> writes the page
  of frame \<open>pp\<close> to that sector, touches neither the bitmap nor any other sector, and
  returns the same sector number. Called with the sentinel while the lowest clear bit
  of the bitmap is at \<open>k\<close>, it sets that bit, writes the page to sector \<open>k\<close> and returns
  \<open>k\<close>. Called with the sentinel while every bit is set, it returns the sentinel and
  leaves the state as it was: nothing is written.
\<close>

theorem PutPageSwap_sector:
  "(disk_addr \<noteq> - 1 \<and> frame_in_memory cfg s pp \<longrightarrow>
      (\<exists>s'. PutPageSwap cfg ns disk_addr pp s = Returns (ucast disk_addr, s') \<and>
         (\<forall>j < PageSize cfg.
            swap_disk s' (unat disk_addr) j = mainMemory s ! (pp * PageSize cfg + j)) \<and>
         (\<forall>sector. sector \<noteq> unat disk_addr \<longrightarrow> swap_disk s' sector = swap_disk s sector) \<and>
         page_flags s' = page_flags s \<and> mainMemory s' = mainMemory s)) \<and>
   (length (page_flags s) = ns \<and> ns < 2 ^ 31 \<and> first_clear (page_flags s) k \<and>
    frame_in_memory cfg s pp \<longrightarrow>
      (\<exists>s'. PutPageSwap cfg ns (- 1) pp s = Returns (word_of_nat k, s') \<and>
         page_flags s' = (page_flags s)[k := True] \<and>
         (\<forall>j < PageSize cfg. swap_disk s' k j = mainMemory s ! (pp * PageSize cfg + j)) \<and>
         (\<forall>sector. sector \<noteq> k \<longrightarrow> swap_disk s' sector = swap_disk s sector) \<and>
         mainMemory s' = mainMemory s)) \<and>
   (length (page_flags s) = ns \<and> (\<forall>j < ns. page_flags s ! j) \<longrightarrow>
      PutPageSwap cfg ns (- 1) pp s = Returns (word_of_int INVALID_SECTOR, s))"
proof (intro conjI impI)
  assume "disk_addr \<noteq> - 1 \<and> frame_in_memory cfg s pp"
  then show "\<exists>s'. PutPageSwap cfg ns disk_addr pp s = Returns (ucast disk_addr, s') \<and>
         (\<forall>j < PageSize cfg.
            swap_disk s' (unat disk_addr) j = mainMemory s ! (pp * PageSize cfg + j)) \<and>
         (\<forall>sector. sector \<noteq> unat disk_addr \<longrightarrow> swap_disk s' sector = swap_disk s sector) \<and>
         page_flags s' = page_flags s \<and> mainMemory s' = mainMemory s"
    by (simp add: PutPageSwap_reuse)
next
  assume "length (page_flags s) = ns \<and> ns < 2 ^ 31 \<and> first_clear (page_flags s) k \<and>
    frame_in_memory cfg s pp"
  then have "PutPageSwap cfg ns (- 1) pp s =
    Returns (word_of_nat k,
      s\<lparr>page_flags := (page_flags s)[k := True],
        swap_disk := (swap_disk s)
          (k := \<lambda>j. if j < PageSize cfg then mainMemory s ! (pp * PageSize cfg + j)
                      else swap_disk s k j)\<rparr>)"
    using PutPageSwap_fresh [of s ns k cfg pp] by blast
  then show "\<exists>s'. PutPageSwap cfg ns (- 1) pp s = Returns (word_of_nat k, s') \<and>
         page_flags s' = (page_flags s)[k := True] \<and>
         (\<forall>j < PageSize cfg. swap_disk s' k j = mainMemory s ! (pp * PageSize cfg + j)) \<and>
         (\<forall>sector. sector \<noteq> k \<longrightarrow> swap_disk s' sector = swap_disk s sector) \<and>
         mainMemory s' = mainMemory s"
    by simp
next
  assume "length (page_flags s) = ns \<and> (\<forall>j < ns. page_flags s ! j)"
  then show "PutPageSwap cfg ns (- 1) pp s = Returns (word_of_int INVALID_SECTOR, s)"
    by (simp add: PutPageSwap_full INVALID_SECTOR_def)
qed

lemma block_of_memory:
  assumes "b + n \<le> length xs"
  shows "map (\<lambda>j. if j < n then xs ! (b + j) else f j) [0..<n] = take n (drop b xs)"
  using assms by (intro nth_equalityI) simp_all

lemma frame_content_ReadSector:
  assumes "frame_in_memory cfg s pp"
  shows "\<exists>s2. GetPageSwap cfg disk_addr pp s = Returns s2 \<and>
     frame_content cfg s2 pp = map (swap_disk s (unat disk_addr)) [0..<PageSize cfg] \<and>
     length (mainMemory s2) = length (mainMemory s) \<and>
     page_flags s2 = page_flags s \<and> swap_disk s2 = swap_disk s"
  using assms
  by (simp add: GetPageSwap_def ReadSector_def frame_in_memory_def frame_content_def)

lemma first_clear_ex:
  assumes "\<exists>j < length bm. \<not> bm ! j"
  shows "\<exists>k. first_clear bm k"
proof -
  let ?P = "\<lambda>j. j < length bm \<and> \<not> bm ! j"
  from assms obtain j where "?P j" by blast
  then have "?P (LEAST j. ?P j)" by (rule LeastI)
  moreover have "\<forall>i < (LEAST j. ?P j). bm ! i"
  proof (intro allI impI)
    fix i assume i: "i < (LEAST j. ?P j)"
    then have "\<not> ?P i" by (rule not_less_Least)
    moreover from i \<open>?P (LEAST j. ?P j)\<close> have "i < length bm" by simp
    ultimately show "bm ! i" by simp
  qed
  ultimately show ?thesis unfolding first_clear_def by blast
qed

text \<open>
  Claim C9. Whatever the content of main memory, when the swap area is not full,
  \<^verbatim>\<open>PutPageSwap\<close> called with the sentinel on frame \<open>pp\<close> returns a sector that was free
  and is now occupied, and \<^verbatim>\<open>GetPageSwap\<close> of that sector into any frame \<open>pp'\<close> leaves in
  \<open>pp'\<close> exactly the bytes that \<open>pp\<close> held.
\<close>

theorem swap_round_trip:
  assumes "length (page_flags s) = ns" "ns < 2 ^ 31" "\<exists>j < ns. \<not> page_flags s ! j"
    "frame_in_memory cfg s pp" "frame_in_memory cfg s pp'"
  shows "\<exists>sector s1 s2.
     PutPageSwap cfg ns (- 1) pp s = Returns (sector, s1) \<and>
     unat sector < ns \<and> \<not> page_flags s ! unat sector \<and> page_flags s1 ! unat sector \<and>
     GetPageSwap cfg (ucast sector) pp' s1 = Returns s2 \<and>
     frame_content cfg s2 pp' = frame_content cfg s pp \<and>
     length (mainMemory s2) = length (mainMemory s)"
proof -
  from assms(1,3) obtain k where fc: "first_clear (page_flags s) k"
    using first_clear_ex [of "page_flags s"] by blast
  then have k: "k < ns" "\<not> page_flags s ! k" using assms(1) by (simp_all add: first_clear_def)
  with assms(2) have k31: "k < 2 ^ 31" by simp
  note w = sector_number_64 [OF k31]
  let ?s1 = "s\<lparr>page_flags := (page_flags s)[k := True],
        swap_disk := (swap_disk s)
          (k := \<lambda>j. if j < PageSize cfg then mainMemory s ! (pp * PageSize cfg + j)
                      else swap_disk s k j)\<rparr>"
  have put: "PutPageSwap cfg ns (- 1) pp s = Returns (word_of_nat k, ?s1)"
    by (rule PutPageSwap_fresh [OF assms(1,2) fc assms(4)])
  have "frame_in_memory cfg ?s1 pp'" using assms(5) by (simp add: frame_in_memory_def)
  from frame_content_ReadSector [OF this, of "ucast (word_of_nat k :: 64 word)"]
  obtain s2 where get: "GetPageSwap cfg (ucast (word_of_nat k :: 64 word)) pp' ?s1 = Returns s2"
    and c: "frame_content cfg s2 pp' = map (swap_disk ?s1 k) [0..<PageSize cfg]"
    and l: "length (mainMemory s2) = length (mainMemory s)"
    by (auto simp: w)
  have "map (swap_disk ?s1 k) [0..<PageSize cfg] = frame_content cfg s pp"
    using assms(4) by (simp add: frame_content_def frame_in_memory_def block_of_memory)
  with c have c': "frame_content cfg s2 pp' = frame_content cfg s pp" by simp
  have f1: "page_flags ?s1 ! k" using k assms(1) by simp
  from put get c' l k f1 w(2) show ?thesis by auto
qed


lemmas swap_eval = cfg_toy_def sw0_def sw_full_def frame_in_memory_def first_clear_def
  All_less_Suc INVALID_SECTOR_def

theorem PutPageSwap_sector_witness:
  "(\<exists>s'. PutPageSwap cfg_toy 3 2 1 sw0 = Returns (2, s') \<and>
      swap_disk s' 2 0 = 5 \<and> swap_disk s' 2 3 = 8 \<and> swap_disk s' 1 0 = 0 \<and>
      page_flags s' = [True, False, True]) \<and>
   (\<exists>s'. PutPageSwap cfg_toy 3 (- 1) 1 sw0 = Returns (1, s') \<and>
      swap_disk s' 1 0 = 5 \<and> swap_disk s' 1 3 = 8 \<and> swap_disk s' 2 0 = 0 \<and>
      page_flags s' = [True, True, True]) \<and>
   PutPageSwap cfg_toy 3 (- 1) 1 sw_full = Returns (- 1, sw_full)"
proof -
  have a: "(2 :: 32 word) \<noteq> - 1 \<and> frame_in_memory cfg_toy sw0 1" 
    by (simp add: swap_eval)
  have b: "length (page_flags sw0) = 3 \<and> (3 :: nat) < 2 ^ 31 \<and> first_clear (page_flags sw0) 1 \<and>
    frame_in_memory cfg_toy sw0 1"
    by (simp add: swap_eval)
  have c: "length (page_flags sw_full) = 3 \<and> (\<forall>j < 3. page_flags sw_full ! j)"
    by (simp add: swap_eval numeral_3_eq_3)
  from a PutPageSwap_sector [where disk_addr = 2 and cfg = cfg_toy and s = sw0 and pp = 1 and ns = 3]
  obtain s1 where 1: "PutPageSwap cfg_toy 3 2 1 sw0 = Returns (ucast (2 :: 32 word), s1)"
    "\<forall>j < PageSize cfg_toy. swap_disk s1 (unat (2 :: 32 word)) j = mainMemory sw0 ! (1 * PageSize cfg_toy + j)"
    "\<forall>sector. sector \<noteq> unat (2 :: 32 word) \<longrightarrow> swap_disk s1 sector = swap_disk sw0 sector"
    "page_flags s1 = page_flags sw0"
    by blast
  from b PutPageSwap_sector [where cfg = cfg_toy and s = sw0 and pp = 1 and ns = 3 and k = 1]
  obtain s2 where 2: "PutPageSwap cfg_toy 3 (- 1) 1 sw0 = Returns (word_of_nat 1, s2)"
    "page_flags s2 = (page_flags sw0)[1 := True]"
    "\<forall>j < PageSize cfg_toy. swap_disk s2 1 j = mainMemory sw0 ! (1 * PageSize cfg_toy + j)"
    "\<forall>sector. sector \<noteq> 1 \<longrightarrow> swap_disk s2 sector = swap_disk sw0 sector"
    by blast
  from c PutPageSwap_sector [where cfg = cfg_toy and s = sw_full and pp = 1 and ns = 3]
  have 3: "PutPageSwap cfg_toy 3 (- 1) 1 sw_full = Returns (word_of_int INVALID_SECTOR, sw_full)"
    by blast
  from 1 2 3 show ?thesis
    by (simp add: swap_eval)
qed

theorem swap_round_trip_witness:
  "\<exists>s1 s2. PutPageSwap cfg_toy 3 (- 1) 1 sw0 = Returns (1, s1) \<and>
     GetPageSwap cfg_toy 1 0 s1 = Returns s2 \<and>
     frame_content cfg_toy sw0 1 = [5, 6, 7, 8] \<and>
     frame_content cfg_toy s2 0 = [5, 6, 7, 8]"
proof -
  have b: "length (page_flags sw0) = 3" "(3 :: nat) < 2 ^ 31" "\<exists>j < 3. \<not> page_flags sw0 ! j"
    "frame_in_memory cfg_toy sw0 1" "frame_in_memory cfg_toy sw0 0"
    by (auto simp: swap_eval intro: exI [of _ 1])
  have p: "PutPageSwap cfg_toy 3 (- 1) 1 sw0 = Returns (1,
      sw0\<lparr>page_flags := (page_flags sw0)[1 := True],
        swap_disk := (swap_disk sw0)
          (1 := \<lambda>j. if j < PageSize cfg_toy then mainMemory sw0 ! (1 * PageSize cfg_toy + j)
                      else swap_disk sw0 1 j)\<rparr>)"
    using PutPageSwap_fresh [of sw0 3 1 cfg_toy 1] by (simp add: swap_eval)
  from swap_round_trip [OF b] p
  show ?thesis
    by (auto simp: swap_eval frame_content_def)
qed

end
